theory Spec2Isabelle
  imports Complex_Main "HOL-Library.Word"
begin

unbundle bit_operations_syntax

section \<open>Host values\<close>

text \<open>
  The library in \<^verbatim>\<open>src/lib/index.ts\<close> converts arbitrary ECMAScript values. A value is
  one of the eight language types of the \<^verbatim>\<open>JsTypes\<close> enum; objects are references into
  a heap, so that "the same reference" is equality of values. The built-in accessor
  functions that the module captures at load time (\<^verbatim>\<open>abByteLengthGetter\<close>,
  \<^verbatim>\<open>sabByteLengthGetter\<close>, \<^verbatim>\<open>dvByteLengthGetter\<close>, \<^verbatim>\<open>dvBufferGetter\<close>) are
  function objects of their own.

  A Number is NaN, an infinity, negative zero, or a finite value. Finite values are
  kept as exact rationals (\<open>Fin 0\<close> is positive zero): every finite double is one, and
  the arithmetic the converters do on finite values (truncation, comparison, the
  remainder, sums and differences of integers below \<open>2^53\<close>, \<open>x - trunc x\<close>) is exact in
  double precision, so the rational result is the double result.
  A string is a sequence of 16-bit code units.
\<close>

type_synonym jsstring = "16 word list"
type_synonym ref = nat

datatype jsnum = NaN | PosInf | NegInf | NegZero | Fin rat

datatype intrinsic =
  AbByteLengthGetter | SabByteLengthGetter | DvByteLengthGetter | DvBufferGetter

datatype jsval =
  Undefined | Null | Boolean bool | Number jsnum | Str jsstring | Sym nat
  | BigInt int | Object ref | Intrinsic intrinsic

text \<open>A value that is a Number or a BigInt, as the arithmetic operators see it.\<close>

datatype numeric = NumV jsnum | BigV int

fun numeric_val :: "numeric \<Rightarrow> jsval" where
  "numeric_val (NumV x) = Number x"
| "numeric_val (BigV n) = BigInt n"

text \<open>
  What a \<^verbatim>\<open>throw\<close> carries: an error of one of the ambient realm's classes with its
  message, or whatever an alternate realm's constructor built (\<open>Foreign\<close>). The messages
  of errors raised by the engine itself are the engine's own wording; only their class
  is fixed by the language.
\<close>

datatype error_kind = TypeError | ReferenceError | RangeError

datatype jserror = Thrown error_kind string | Foreign string string

text \<open>Objects of the heap, as far as the converters can tell them apart.\<close>

datatype jsobj =
  ArrayBufferObj bool nat       \<comment> \<open>detached?, byte length\<close>
  | SharedArrayBufferObj nat    \<comment> \<open>byte length\<close>
  | DataViewObj ref nat         \<comment> \<open>the backing buffer, byte length\<close>
  | TypedArrayObj ref           \<comment> \<open>the backing buffer\<close>
  | FunctionObj
  | OrdinaryObj

text \<open>
  The host environment of one call: the heap, and the behaviour of the host that is not
  part of this module (parsing a string as a number, converting an object to a
  primitive, which may run user code, calling a user function, \<^verbatim>\<open>Math.fround\<close>,
  constructing a \<^verbatim>\<open>Uint8Array\<close> from a value that is not a buffer).
\<close>

record host =
  heap :: "ref \<Rightarrow> jsobj"
  StringToNumber :: "jsstring \<Rightarrow> jsnum"
  ObjectToNumber :: "ref \<Rightarrow> jserror + jsnum"
  HostToString :: "jsval \<Rightarrow> jserror + jsstring"
  callFunction :: "ref \<Rightarrow> jsval \<Rightarrow> jsval list \<Rightarrow> jserror + jsval"
  fround :: "jsnum \<Rightarrow> jsnum"
  Uint8ArrayFromThrows :: "jsval \<Rightarrow> bool"

section \<open>The conversion configuration\<close>

text \<open>
  \<^verbatim>\<open>globals_t\<close>: the optional alternate realm, each of its three constructors optional.
\<close>

record globals =
  gNumber :: "(jsval \<Rightarrow> jserror + jsnum) option"
  gString :: "(jsval \<Rightarrow> jserror + jsstring) option"
  gTypeError :: "(string \<Rightarrow> jserror) option"

record opts =
  opt_enforceRange :: bool
  opt_clamp :: bool
  opt_treatNullAsEmptyString :: bool
  opt_allowShared :: bool
  opt_context :: "string option"
  opt_globals :: "globals option"

text \<open>The configuration \<^verbatim>\<open>{}\<close>, which every converter takes when none is given.\<close>

definition default_opts :: opts where
  "default_opts =
     \<lparr>opt_enforceRange = False, opt_clamp = False, opt_treatNullAsEmptyString = False,
      opt_allowShared = False, opt_context = None, opt_globals = None\<rparr>"

section \<open>Errors\<close>

text \<open>
  \<^verbatim>\<open>makeException(ErrorType, message, opts)\<close>: with an alternate realm the constructor
  is looked up there under the name of \<open>ErrorType\<close> (the realm declares \<^verbatim>\<open>TypeError\<close>
  only, and \<^verbatim>\<open>new undefined(...)\<close> raises a TypeError of the ambient realm). The
  message is the context, or \<^verbatim>\<open>"Value"\<close> when the context is missing or empty, then
  the detail, then a full stop.
\<close>

fun globals_lookup :: "globals \<Rightarrow> error_kind \<Rightarrow> (string \<Rightarrow> jserror) option" where
  "globals_lookup g TypeError = gTypeError g"
| "globals_lookup g _ = None"

definition context_label :: "opts \<Rightarrow> string" where
  "context_label opts =
     (case opt_context opts of
        None \<Rightarrow> ''Value''
      | Some c \<Rightarrow> if c \<noteq> [] then c else ''Value'')"

definition makeException :: "error_kind \<Rightarrow> string \<Rightarrow> opts \<Rightarrow> jserror" where
  "makeException ErrorType message opts =
     (let text = context_label opts @ '' '' @ message @ ''.'' in
      case opt_globals opts of
        None \<Rightarrow> Thrown ErrorType text
      | Some g \<Rightarrow>
          (case globals_lookup g ErrorType of
             None \<Rightarrow> Thrown TypeError ''ErrorType is not a constructor''
           | Some ctor \<Rightarrow> ctor text))"

section \<open>Numeric coercion\<close>

text \<open>
  The language's \<^verbatim>\<open>ToNumber\<close>, which unary plus applies: a symbol and a BigInt raise a
  TypeError.
\<close>

fun ToNumber :: "host \<Rightarrow> jsval \<Rightarrow> jserror + jsnum" where
  "ToNumber h Undefined = Inr NaN"
| "ToNumber h Null = Inr (Fin 0)"
| "ToNumber h (Boolean b) = Inr (Fin (if b then 1 else 0))"
| "ToNumber h (Number x) = Inr x"
| "ToNumber h (Str s) = Inr (StringToNumber h s)"
| "ToNumber h (Sym s) = Inl (Thrown TypeError ''Cannot convert a Symbol value to a number'')"
| "ToNumber h (BigInt n) = Inl (Thrown TypeError ''Cannot convert a BigInt value to a number'')"
| "ToNumber h (Object r) = ObjectToNumber h r"
| "ToNumber h (Intrinsic g) = Inr NaN"

definition toNumber :: "host \<Rightarrow> jsval \<Rightarrow> opts \<Rightarrow> jserror + jsnum" where
  "toNumber h v opts =
     (case opt_globals opts of
        None \<Rightarrow> ToNumber h v
      | Some g \<Rightarrow>
          (case v of
             BigInt n \<Rightarrow>
               (case gTypeError g of
                  None \<Rightarrow> Inl (Thrown TypeError ''opts.globals.TypeError is not a function'')
                | Some ctor \<Rightarrow> Inl (ctor ''Cannot convert a BigInt value to a number''))
           | _ \<Rightarrow>
               (case gNumber g of
                  None \<Rightarrow> Inl (Thrown TypeError ''opts.globals.Number is not a function'')
                | Some f \<Rightarrow> f v)))"

section \<open>Number primitives of the language\<close>

fun num_val :: "jsnum \<Rightarrow> rat" where
  "num_val (Fin r) = r"
| "num_val _ = 0"

fun isFinite :: "jsnum \<Rightarrow> bool" where
  "isFinite (Fin r) = True"
| "isFinite NegZero = True"
| "isFinite _ = False"

fun isNaN :: "jsnum \<Rightarrow> bool" where
  "isNaN NaN = True"
| "isNaN _ = False"

text \<open>\<^verbatim>\<open>a === b\<close> on Numbers: NaN equals nothing, the two zeros are equal.\<close>

definition strict_eq :: "jsnum \<Rightarrow> jsnum \<Rightarrow> bool" where
  "strict_eq a b =
     (if isNaN a \<or> isNaN b then False
      else if isFinite a \<and> isFinite b then num_val a = num_val b
      else a = b)"

text \<open>
  The relational comparison \<open>a < b\<close> before it is turned into a boolean: \<open>None\<close> is the
  language's \<^verbatim>\<open>undefined\<close> (an operand is NaN). A BigInt operand is compared by its
  mathematical value, so Numbers and BigInts compare without an error.
\<close>

fun num_less :: "jsnum \<Rightarrow> jsnum \<Rightarrow> bool option" where
  "num_less NaN b = None"
| "num_less a NaN = None"
| "num_less PosInf b = Some False"
| "num_less a PosInf = Some True"
| "num_less a NegInf = Some False"
| "num_less NegInf b = Some True"
| "num_less a b = Some (num_val a < num_val b)"

fun math_val :: "numeric \<Rightarrow> jsnum" where
  "math_val (NumV x) = x"
| "math_val (BigV n) = Fin (of_int n)"

definition js_less :: "numeric \<Rightarrow> numeric \<Rightarrow> bool option" where
  "js_less a b = num_less (math_val a) (math_val b)"

definition js_lt :: "numeric \<Rightarrow> numeric \<Rightarrow> bool" where
  "js_lt a b = (js_less a b = Some True)"

definition js_gt :: "numeric \<Rightarrow> numeric \<Rightarrow> bool" where
  "js_gt a b = (js_less b a = Some True)"

definition js_le :: "numeric \<Rightarrow> numeric \<Rightarrow> bool" where
  "js_le a b = (js_less b a = Some False)"

definition js_ge :: "numeric \<Rightarrow> numeric \<Rightarrow> bool" where
  "js_ge a b = (js_less a b = Some False)"

text \<open>Sum, negation, difference and remainder of Numbers.\<close>

fun num_add :: "jsnum \<Rightarrow> jsnum \<Rightarrow> jsnum" where
  "num_add NaN b = NaN"
| "num_add a NaN = NaN"
| "num_add PosInf NegInf = NaN"
| "num_add NegInf PosInf = NaN"
| "num_add PosInf b = PosInf"
| "num_add a PosInf = PosInf"
| "num_add NegInf b = NegInf"
| "num_add a NegInf = NegInf"
| "num_add NegZero NegZero = NegZero"
| "num_add a b = Fin (num_val a + num_val b)"

fun num_neg :: "jsnum \<Rightarrow> jsnum" where
  "num_neg NaN = NaN"
| "num_neg PosInf = NegInf"
| "num_neg NegInf = PosInf"
| "num_neg NegZero = Fin 0"
| "num_neg (Fin r) = (if r = 0 then NegZero else Fin (- r))"

definition num_sub :: "jsnum \<Rightarrow> jsnum \<Rightarrow> jsnum" where
  "num_sub a b = num_add a (num_neg b)"

definition rat_trunc :: "rat \<Rightarrow> int" where
  "rat_trunc r = (if 0 \<le> r then \<lfloor>r\<rfloor> else \<lceil>r\<rceil>)"

fun num_rem :: "jsnum \<Rightarrow> jsnum \<Rightarrow> jsnum" where
  "num_rem NaN b = NaN"
| "num_rem a NaN = NaN"
| "num_rem PosInf b = NaN"
| "num_rem NegInf b = NaN"
| "num_rem a PosInf = a"
| "num_rem a NegInf = a"
| "num_rem a b =
     (if num_val b = 0 then NaN
      else if num_val a = 0 then a
      else
        let r = num_val a - num_val b * of_int (rat_trunc (num_val a / num_val b))
        in if r = 0 \<and> num_val a < 0 then NegZero else Fin r)"

text \<open>\<^verbatim>\<open>Math.trunc\<close>, \<^verbatim>\<open>Math.floor\<close>, \<^verbatim>\<open>Math.round\<close> (ties go up).\<close>

fun Math_trunc :: "jsnum \<Rightarrow> jsnum" where
  "Math_trunc (Fin r) = (if - 1 < r \<and> r < 0 then NegZero else Fin (of_int (rat_trunc r)))"
| "Math_trunc x = x"

fun Math_floor :: "jsnum \<Rightarrow> jsnum" where
  "Math_floor (Fin r) = Fin (of_int \<lfloor>r\<rfloor>)"
| "Math_floor x = x"

fun Math_round :: "jsnum \<Rightarrow> jsnum" where
  "Math_round (Fin r) =
     (if - (1 / 2) \<le> r \<and> r < 0 then NegZero else Fin (of_int \<lfloor>r + 1 / 2\<rfloor>))"
| "Math_round x = x"

text \<open>
  \<^verbatim>\<open>Math.max\<close> and \<^verbatim>\<open>Math.min\<close> convert every argument with \<^verbatim>\<open>ToNumber\<close> first, so a
  BigInt argument raises a TypeError. Of the two zeros, the positive one is the larger.
\<close>

fun numeric_ToNumber :: "numeric \<Rightarrow> jserror + jsnum" where
  "numeric_ToNumber (NumV x) = Inr x"
| "numeric_ToNumber (BigV n) =
     Inl (Thrown TypeError ''Cannot convert a BigInt value to a number'')"

definition num_max :: "jsnum \<Rightarrow> jsnum \<Rightarrow> jsnum" where
  "num_max a b =
     (if isNaN a \<or> isNaN b then NaN
      else if num_less a b = Some True then b
      else if num_less b a = Some True then a
      else if a = NegZero then b else a)"

definition num_min :: "jsnum \<Rightarrow> jsnum \<Rightarrow> jsnum" where
  "num_min a b =
     (if isNaN a \<or> isNaN b then NaN
      else if num_less a b = Some True then a
      else if num_less b a = Some True then b
      else if b = NegZero then b else a)"

definition Math_max :: "numeric \<Rightarrow> numeric \<Rightarrow> jserror + jsnum" where
  "Math_max a b =
     (case numeric_ToNumber a of
        Inl e \<Rightarrow> Inl e
      | Inr x \<Rightarrow> (case numeric_ToNumber b of Inl e \<Rightarrow> Inl e | Inr y \<Rightarrow> Inr (num_max x y)))"

definition Math_min :: "numeric \<Rightarrow> numeric \<Rightarrow> jserror + jsnum" where
  "Math_min a b =
     (case numeric_ToNumber a of
        Inl e \<Rightarrow> Inl e
      | Inr x \<Rightarrow> (case numeric_ToNumber b of Inl e \<Rightarrow> Inl e | Inr y \<Rightarrow> Inr (num_min x y)))"

text \<open>
  The binary minus: two Numbers or two BigInts subtract; a Number and a BigInt raise a
  TypeError.
\<close>

fun js_minus :: "numeric \<Rightarrow> numeric \<Rightarrow> jserror + numeric" where
  "js_minus (NumV a) (NumV b) = Inr (NumV (num_sub a b))"
| "js_minus (BigV a) (BigV b) = Inr (BigV (a - b))"
| "js_minus a b =
     Inl (Thrown TypeError ''Cannot mix BigInt and other types, use explicit conversions'')"

text \<open>\<^verbatim>\<open>x | 0\<close>: the value truncated and wrapped into the signed 32-bit window.\<close>

fun ToInt32 :: "jsnum \<Rightarrow> int" where
  "ToInt32 (Fin r) = sint (word_of_int (rat_trunc r) :: 32 word)"
| "ToInt32 x = 0"

text \<open>
  \<^verbatim>\<open>BigInt(n)\<close> of a Number: its integer value, a RangeError when it is not integral.
  \<^verbatim>\<open>BigInt.asUintN\<close> and \<^verbatim>\<open>BigInt.asIntN\<close> wrap into the unsigned and the signed
  window of the given width.
\<close>

fun NumberToBigInt :: "jsnum \<Rightarrow> jserror + int" where
  "NumberToBigInt (Fin r) =
     (if r = of_int \<lfloor>r\<rfloor> then Inr \<lfloor>r\<rfloor>
      else Inl (Thrown RangeError ''The number cannot be converted to a BigInt because it is not an integer''))"
| "NumberToBigInt NegZero = Inr 0"
| "NumberToBigInt x =
     Inl (Thrown RangeError ''The number cannot be converted to a BigInt because it is not an integer'')"

definition asUintN :: "nat \<Rightarrow> int \<Rightarrow> int" where
  "asUintN bits n = n mod 2 ^ bits"

definition asIntN :: "nat \<Rightarrow> int \<Rightarrow> int" where
  "asIntN bits n =
     (let m = n mod 2 ^ bits in if bits \<noteq> 0 \<and> 2 ^ (bits - 1) \<le> m then m - 2 ^ bits else m)"

definition MAX_SAFE_INTEGER :: int where
  "MAX_SAFE_INTEGER = 9007199254740991"

definition MIN_SAFE_INTEGER :: int where
  "MIN_SAFE_INTEGER = - 9007199254740991"

section \<open>Rounding and arithmetic helpers of the module\<close>

definition censorNegativeZero :: "jsnum \<Rightarrow> jsnum" where
  "censorNegativeZero x = (if strict_eq x (Fin 0) then Fin 0 else x)"

definition integerPart :: "jsnum \<Rightarrow> jsnum" where
  "integerPart n = censorNegativeZero (Math_trunc n)"

definition clamp :: "numeric \<Rightarrow> numeric \<Rightarrow> numeric \<Rightarrow> jserror + jsnum" where
  "clamp x lowerBound upperBound =
     (case Math_max x lowerBound of
        Inl e \<Rightarrow> Inl e
      | Inr m \<Rightarrow> Math_min (NumV m) upperBound)"

text \<open>
  \<^verbatim>\<open>evenRound\<close>: \<open>i\<close> is the source's \<^verbatim>\<open>int\<close>, \<open>and1\<close> its \<^verbatim>\<open>and\<close>.
\<close>

definition evenRound :: "jsnum \<Rightarrow> jsnum" where
  "evenRound x =
     (let i = Math_trunc x;
          decimals = num_sub x i;
          and1 = ToInt32 i AND 1
      in censorNegativeZero
           (if (js_gt (NumV x) (NumV (Fin 0)) \<and> strict_eq decimals (Fin (1 / 2)) \<and> and1 = 0)
               \<or> (js_lt (NumV x) (NumV (Fin 0)) \<and> strict_eq decimals (Fin (- (1 / 2))) \<and> and1 = 1)
            then Math_floor x
            else Math_round x))"

text \<open>
  \<^verbatim>\<open>sign\<close> returns \<^verbatim>\<open>Negative\<close> or \<^verbatim>\<open>Positive\<close>. The module declares
  \<^verbatim>\<open>enum Sign { Negative = -1, Positive = 1 }\<close>, whose members are \<^verbatim>\<open>Sign.Negative\<close>
  and \<^verbatim>\<open>Sign.Positive\<close>; the bare identifiers the function body reads are bound
  nowhere in the module or in the global object, and reading an unbound identifier
  raises a ReferenceError.
\<close>

definition Negative :: "jserror + jsnum" where
  "Negative = Inl (Thrown ReferenceError ''Negative is not defined'')"

definition Positive :: "jserror + jsnum" where
  "Positive = Inl (Thrown ReferenceError ''Positive is not defined'')"

definition sign :: "jsnum \<Rightarrow> jserror + jsnum" where
  "sign x = (if js_lt (NumV x) (NumV (Fin 0)) then Negative else Positive)"

definition modulo :: "jsnum \<Rightarrow> jsnum \<Rightarrow> jserror + jsnum" where
  "modulo x y =
     (let signMightNotMatch = num_rem x y in
      case sign y of
        Inl e \<Rightarrow> Inl e
      | Inr sy \<Rightarrow>
          (case sign signMightNotMatch of
             Inl e \<Rightarrow> Inl e
           | Inr sm \<Rightarrow>
               Inr (if \<not> strict_eq sy sm then num_add signMightNotMatch y
                    else signMightNotMatch)))"

section \<open>Decimal numerals in messages\<close>

fun show_nat :: "nat \<Rightarrow> string" where
  "show_nat n =
     (if n < 10 then [''0123456789'' ! n]
      else show_nat (n div 10) @ [''0123456789'' ! (n mod 10)])"

definition show_int :: "int \<Rightarrow> string" where
  "show_int k = (if k < 0 then ''-'' @ show_nat (nat (- k)) else show_nat (nat k))"

section \<open>The integer coercion engine\<close>

text \<open>
  A bound of a converter is an integer constant, held either as a BigInt (the bounds of
  \<^verbatim>\<open>createIntegerConversion\<close>, computed from \<^verbatim>\<open>1n << BigInt(bitLength)\<close>) or as a Number
  (the bounds of \<^verbatim>\<open>createLongLongConversion\<close>). In a template literal both print as
  the decimal numeral.
\<close>

datatype bound = BigIntBound int | NumberBound int

fun bound_numeric :: "bound \<Rightarrow> numeric" where
  "bound_numeric (BigIntBound n) = BigV n"
| "bound_numeric (NumberBound n) = NumV (Fin (of_int n))"

fun show_bound :: "bound \<Rightarrow> string" where
  "show_bound (BigIntBound n) = show_int n"
| "show_bound (NumberBound n) = show_int n"

definition range_message :: "bound \<Rightarrow> bound \<Rightarrow> string" where
  "range_message lowerBound upperBound =
     ''is outside the accepted range of '' @ show_bound lowerBound @ '' to ''
       @ show_bound upperBound @ '', inclusive''"

text \<open>
  \<^verbatim>\<open>createIntegerConversion(bitLength, typeOpts)\<close> applied to a value and a
  configuration. The bounds are BigInts (for a width of 64 the pair is the source's
  \<^verbatim>\<open>[MAX_SAFE_INTEGER, 0 or MIN_SAFE_INTEGER]\<close>, in that order), while \<open>x\<close> is a Number
  throughout.
\<close>

definition integer_bounds :: "nat \<Rightarrow> bool \<Rightarrow> bound \<times> bound" where
  "integer_bounds bitLength is_unsigned =
     (let isSigned = \<not> is_unsigned;
          twoToTheBitLength = (2::int) ^ bitLength;
          twoToOneLessThanTheBitLength = twoToTheBitLength div 2
      in if 64 = bitLength then
           (BigIntBound MAX_SAFE_INTEGER,
            if \<not> isSigned then NumberBound 0 else BigIntBound MIN_SAFE_INTEGER)
         else if \<not> isSigned then (BigIntBound 0, BigIntBound (twoToTheBitLength - 1))
         else (BigIntBound (- twoToOneLessThanTheBitLength),
               BigIntBound (twoToOneLessThanTheBitLength - 1)))"

definition createIntegerConversion ::
  "nat \<Rightarrow> bool \<Rightarrow> host \<Rightarrow> jsval \<Rightarrow> opts \<Rightarrow> jserror + jsval" where
  "createIntegerConversion bitLength is_unsigned h V opts =
     (let isSigned = \<not> is_unsigned;
          twoToTheBitLength = (2::int) ^ bitLength;
          twoToOneLessThanTheBitLength = twoToTheBitLength div 2;
          lowerBound = fst (integer_bounds bitLength is_unsigned);
          upperBound = snd (integer_bounds bitLength is_unsigned)
      in case toNumber h V opts of
           Inl e \<Rightarrow> Inl e
         | Inr x0 \<Rightarrow>
             let x = censorNegativeZero x0 in
             if opt_enforceRange opts then
               if \<not> isFinite x then Inl (makeException TypeError ''is not a finite number'' opts)
               else
                 let x = integerPart x in
                 if js_lt (NumV x) (bound_numeric lowerBound)
                    \<or> js_gt (NumV x) (bound_numeric upperBound)
                 then Inl (makeException TypeError (range_message lowerBound upperBound) opts)
                 else Inr (Number x)
             else if \<not> isNaN x \<and> opt_clamp opts then
               (case clamp (NumV x) (bound_numeric lowerBound) (bound_numeric upperBound) of
                  Inl e \<Rightarrow> Inl e
                | Inr c \<Rightarrow> Inr (Number (evenRound c)))
             else if \<not> isFinite x \<or> strict_eq x (Fin 0) then Inr (Number (Fin 0))
             else
               let x = integerPart x in
               if js_ge (NumV x) (bound_numeric lowerBound)
                  \<and> js_le (NumV x) (bound_numeric upperBound)
               then Inr (Number x)
               else
                 (case modulo x (Fin (of_int twoToTheBitLength)) of
                    Inl e \<Rightarrow> Inl e
                  | Inr x \<Rightarrow>
                      if isSigned \<and> js_ge (NumV x) (BigV twoToOneLessThanTheBitLength) then
                        (case js_minus (NumV x) (BigV twoToTheBitLength) of
                           Inl e \<Rightarrow> Inl e
                         | Inr d \<Rightarrow> Inr (numeric_val d))
                      else Inr (Number x)))"

text \<open>
  \<^verbatim>\<open>createLongLongConversion(bitLength, {unsigned})\<close>: the bounds are Numbers, the
  default policy ends in \<^verbatim>\<open>asBigIntN(bitLength, BigInt(integerPart(x)))\<close>.
\<close>

definition createLongLongConversion ::
  "nat \<Rightarrow> bool \<Rightarrow> host \<Rightarrow> jsval \<Rightarrow> opts \<Rightarrow> jserror + jsval" where
  "createLongLongConversion bitLength is_unsigned h V opts =
     (let upperBound = NumberBound MAX_SAFE_INTEGER;
          lowerBound = (if is_unsigned then NumberBound 0 else NumberBound MIN_SAFE_INTEGER);
          asBigIntN = (if is_unsigned then asUintN else asIntN)
      in case toNumber h V opts of
           Inl e \<Rightarrow> Inl e
         | Inr x0 \<Rightarrow>
             let x = censorNegativeZero x0 in
             if opt_enforceRange opts then
               if \<not> isFinite x then Inl (makeException TypeError ''is not a finite number'' opts)
               else
                 let x = integerPart x in
                 if js_lt (NumV x) (bound_numeric lowerBound)
                    \<or> js_gt (NumV x) (bound_numeric upperBound)
                 then Inl (makeException TypeError (range_message lowerBound upperBound) opts)
                 else Inr (Number x)
             else if \<not> isNaN x \<and> opt_clamp opts then
               (case clamp (NumV x) (bound_numeric lowerBound) (bound_numeric upperBound) of
                  Inl e \<Rightarrow> Inl e
                | Inr c \<Rightarrow> Inr (Number (evenRound c)))
             else if \<not> isFinite x \<or> strict_eq x (Fin 0) then Inr (Number (Fin 0))
             else
               (case NumberToBigInt (integerPart x) of
                  Inl e \<Rightarrow> Inl e
                | Inr xBigInt \<Rightarrow> Inr (BigInt (asBigIntN bitLength xBigInt))))"

definition export_byte :: "host \<Rightarrow> jsval \<Rightarrow> opts \<Rightarrow> jserror + jsval" where
  "export_byte = createIntegerConversion 8 False"

definition export_octet :: "host \<Rightarrow> jsval \<Rightarrow> opts \<Rightarrow> jserror + jsval" where
  "export_octet = createIntegerConversion 8 True"

definition export_short :: "host \<Rightarrow> jsval \<Rightarrow> opts \<Rightarrow> jserror + jsval" where
  "export_short = createIntegerConversion 16 False"

definition export_unsigned_short :: "host \<Rightarrow> jsval \<Rightarrow> opts \<Rightarrow> jserror + jsval" where
  "export_unsigned_short = createIntegerConversion 16 True"

definition export_long :: "host \<Rightarrow> jsval \<Rightarrow> opts \<Rightarrow> jserror + jsval" where
  "export_long = createIntegerConversion 32 False"

definition export_unsigned_long :: "host \<Rightarrow> jsval \<Rightarrow> opts \<Rightarrow> jserror + jsval" where
  "export_unsigned_long = createIntegerConversion 32 True"

definition export_long_long :: "host \<Rightarrow> jsval \<Rightarrow> opts \<Rightarrow> jserror + jsval" where
  "export_long_long = createLongLongConversion 64 False"

definition export_unsigned_long_long :: "host \<Rightarrow> jsval \<Rightarrow> opts \<Rightarrow> jserror + jsval" where
  "export_unsigned_long_long = createLongLongConversion 64 True"

section \<open>Floating-point coercion\<close>

definition export_double :: "host \<Rightarrow> jsval \<Rightarrow> opts \<Rightarrow> jserror + jsval" where
  "export_double h V opts =
     (case toNumber h V opts of
        Inl e \<Rightarrow> Inl e
      | Inr x \<Rightarrow>
          if \<not> isFinite x
          then Inl (makeException TypeError ''is not a finite floating-point value'' opts)
          else Inr (Number x))"

definition export_unrestricted_double :: "host \<Rightarrow> jsval \<Rightarrow> opts \<Rightarrow> jserror + jsval" where
  "export_unrestricted_double h V opts =
     (case toNumber h V opts of Inl e \<Rightarrow> Inl e | Inr x \<Rightarrow> Inr (Number x))"

definition export_float :: "host \<Rightarrow> jsval \<Rightarrow> opts \<Rightarrow> jserror + jsval" where
  "export_float h V opts =
     (case toNumber h V opts of
        Inl e \<Rightarrow> Inl e
      | Inr x \<Rightarrow>
          if \<not> isFinite x
          then Inl (makeException TypeError ''is not a finite floating-point value'' opts)
          else if x = NegZero then Inr (Number NegZero)
          else
            let y = fround h x in
            if \<not> isFinite y
            then Inl (makeException TypeError
                   ''is outside the range of a single-precision floating-point value'' opts)
            else Inr (Number y))"

definition export_unrestricted_float :: "host \<Rightarrow> jsval \<Rightarrow> opts \<Rightarrow> jserror + jsval" where
  "export_unrestricted_float h V opts =
     (case toNumber h V opts of
        Inl e \<Rightarrow> Inl e
      | Inr x \<Rightarrow>
          if isNaN x then Inr (Number x)
          else if x = NegZero then Inr (Number NegZero)
          else Inr (Number (fround h x)))"

section \<open>The string coercion family\<close>

definition ascii_units :: "string \<Rightarrow> jsstring" where
  "ascii_units cs = map (\<lambda>c. of_nat (of_char c)) cs"

text \<open>
  \<^verbatim>\<open>String(V)\<close> of the ambient realm; the number-to-string algorithm, the descriptive
  string of a symbol and the conversion of an object are the host's.
\<close>

fun String_ctor :: "host \<Rightarrow> jsval \<Rightarrow> jserror + jsstring" where
  "String_ctor h Undefined = Inr (ascii_units ''undefined'')"
| "String_ctor h Null = Inr (ascii_units ''null'')"
| "String_ctor h (Boolean b) = Inr (ascii_units (if b then ''true'' else ''false''))"
| "String_ctor h (Str s) = Inr s"
| "String_ctor h (BigInt n) = Inr (ascii_units (show_int n))"
| "String_ctor h v = HostToString h v"

definition export_DOMString :: "host \<Rightarrow> jsval \<Rightarrow> opts \<Rightarrow> jserror + jsstring" where
  "export_DOMString h V opts =
     (if V = Null \<and> opt_treatNullAsEmptyString opts then Inr []
      else
        case V of
          Sym s \<Rightarrow>
            Inl (makeException TypeError
                   ''is a symbol, which cannot be converted to a string'' opts)
        | _ \<Rightarrow>
            (case opt_globals opts of
               None \<Rightarrow> String_ctor h V
             | Some g \<Rightarrow>
                 (case gString g of
                    None \<Rightarrow> Inl (Thrown TypeError ''StringCtor is not a function'')
                  | Some f \<Rightarrow> f V)))"

text \<open>
  \<^verbatim>\<open>String.prototype.charCodeAt\<close> and \<^verbatim>\<open>String.fromCodePoint\<close> of the language.
\<close>

definition String_charCodeAt :: "jsstring \<Rightarrow> nat \<Rightarrow> jsnum" where
  "String_charCodeAt S i = (if i < length S then Fin (of_nat (unat (S ! i))) else NaN)"

fun fromCodePoint :: "jsnum \<Rightarrow> jserror + jsstring" where
  "fromCodePoint (Fin r) =
     (if r = of_int \<lfloor>r\<rfloor> \<and> 0 \<le> r \<and> r \<le> 1114111 then
        (let cp = \<lfloor>r\<rfloor> in
         if cp \<le> 65535 then Inr [word_of_int cp]
         else Inr [word_of_int ((cp - 65536) div 1024 + 55296),
                   word_of_int ((cp - 65536) mod 1024 + 56320)])
      else Inl (Thrown RangeError ''Invalid code point''))"
| "fromCodePoint NegZero = Inr [0]"
| "fromCodePoint x = Inl (Thrown RangeError ''Invalid code point'')"

text \<open>
  The identifier \<^verbatim>\<open>charCodeAt\<close> that the loop of \<^verbatim>\<open>export_USVString\<close> reads. The
  module takes \<^verbatim>\<open>codePointAt\<close> and the string iterator from \<^verbatim>\<open>String.prototype\<close>
  (lines 422 to 425) and never declares \<^verbatim>\<open>charCodeAt\<close>; the global object has no
  property of that name, so reading it raises a ReferenceError.
\<close>

definition charCodeAt :: "jserror + (jsstring \<Rightarrow> nat \<Rightarrow> jsnum)" where
  "charCodeAt = Inl (Thrown ReferenceError ''charCodeAt is not defined'')"

text \<open>
  The loop \<^verbatim>\<open>for (let i = 0; i < n; ++i)\<close> of \<^verbatim>\<open>export_USVString\<close>, from index \<open>i\<close>
  with the array \<open>U\<close> of the pieces pushed so far. Its first argument is what reading the
  identifier \<^verbatim>\<open>charCodeAt\<close> gives.
\<close>

function USV_loop ::
  "(jserror + (jsstring \<Rightarrow> nat \<Rightarrow> jsnum)) \<Rightarrow> jsstring \<Rightarrow> nat \<Rightarrow> nat \<Rightarrow> jsstring list
     \<Rightarrow> jserror + jsstring list" where
  "USV_loop ident S n i U =
     (if \<not> i < n then Inr U
      else
        case ident of
          Inl e \<Rightarrow> Inl e
        | Inr charCodeAt_fn \<Rightarrow>
            let c = charCodeAt_fn S i in
            if js_lt (NumV c) (NumV (Fin 55296)) \<or> js_gt (NumV c) (NumV (Fin 57343)) then
              (case fromCodePoint c of
                 Inl e \<Rightarrow> Inl e
               | Inr s \<Rightarrow> USV_loop ident S n (i + 1) (U @ [s]))
            else if (js_le (NumV (Fin 56320)) (NumV c) \<and> js_le (NumV c) (NumV (Fin 57343)))
                    \<or> i = n - 1 then
              (case fromCodePoint (Fin 65533) of
                 Inl e \<Rightarrow> Inl e
               | Inr s \<Rightarrow> USV_loop ident S n (i + 1) (U @ [s]))
            else
              let d = charCodeAt_fn S (i + 1) in
              if js_le (NumV (Fin 56320)) (NumV d) \<and> js_le (NumV d) (NumV (Fin 57343)) then
                (let a = ToInt32 c AND 1023;
                     b = ToInt32 d AND 1023
                 in case fromCodePoint (Fin (of_int (65536 + 1024 * a + b))) of
                      Inl e \<Rightarrow> Inl e
                    | Inr s \<Rightarrow> USV_loop ident S n (i + 2) (U @ [s]))
              else
                (case fromCodePoint (Fin 65533) of
                   Inl e \<Rightarrow> Inl e
                 | Inr s \<Rightarrow> USV_loop ident S n (i + 1) (U @ [s])))"
  by pat_completeness auto
termination
  by (relation "measure (\<lambda>(ident, S, n, i, U). n - i)") auto

definition export_USVString :: "host \<Rightarrow> jsval \<Rightarrow> opts \<Rightarrow> jserror + jsstring" where
  "export_USVString h V opts =
     (case export_DOMString h V opts of
        Inl e \<Rightarrow> Inl e
      | Inr S \<Rightarrow>
          (case USV_loop charCodeAt S (length S) 0 [] of
             Inl e \<Rightarrow> Inl e
           | Inr U \<Rightarrow> Inr (concat U)))"

section \<open>The buffer and view validation layer\<close>

text \<open>
  What the captured accessors do on a receiver: each raises a TypeError unless the
  receiver is an object of its own class. The byte length of a detached buffer is 0 (the
  getter does not raise on it, as the source's comment says).
\<close>

definition incompatible_receiver :: jserror where
  "incompatible_receiver = Thrown TypeError ''Method called on incompatible receiver''"

fun call_intrinsic :: "host \<Rightarrow> intrinsic \<Rightarrow> jsval \<Rightarrow> jserror + jsval" where
  "call_intrinsic h AbByteLengthGetter (Object r) =
     (case heap h r of
        ArrayBufferObj detached n \<Rightarrow> Inr (Number (Fin (if detached then 0 else of_nat n)))
      | _ \<Rightarrow> Inl incompatible_receiver)"
| "call_intrinsic h SabByteLengthGetter (Object r) =
     (case heap h r of
        SharedArrayBufferObj n \<Rightarrow> Inr (Number (Fin (of_nat n)))
      | _ \<Rightarrow> Inl incompatible_receiver)"
| "call_intrinsic h DvByteLengthGetter (Object r) =
     (case heap h r of
        DataViewObj b n \<Rightarrow>
          (case heap h b of
             ArrayBufferObj True m \<Rightarrow> Inl (Thrown TypeError ''Cannot perform DataView.prototype.byteLength on a detached ArrayBuffer'')
           | _ \<Rightarrow> Inr (Number (Fin (of_nat n))))
      | _ \<Rightarrow> Inl incompatible_receiver)"
| "call_intrinsic h DvBufferGetter (Object r) =
     (case heap h r of
        DataViewObj b n \<Rightarrow> Inr (Object b)
      | _ \<Rightarrow> Inl incompatible_receiver)"
| "call_intrinsic h g this = Inl incompatible_receiver"

text \<open>
  \<^verbatim>\<open>Reflect.apply(target, thisArgument, argumentsList)\<close> (the module's \<^verbatim>\<open>apply\<close>): a
  TypeError unless \<open>target\<close> is callable.
\<close>

definition Reflect_apply :: "host \<Rightarrow> jsval \<Rightarrow> jsval \<Rightarrow> jsval list \<Rightarrow> jserror + jsval" where
  "Reflect_apply h target thisArgument argumentsList =
     (case target of
        Intrinsic g \<Rightarrow> call_intrinsic h g thisArgument
      | Object r \<Rightarrow>
          (case heap h r of
             FunctionObj \<Rightarrow> callFunction h r thisArgument argumentsList
           | _ \<Rightarrow> Inl (Thrown TypeError ''target is not a function''))
      | _ \<Rightarrow> Inl (Thrown TypeError ''target is not a function''))"

definition isNonSharedArrayBuffer :: "host \<Rightarrow> jsval \<Rightarrow> bool" where
  "isNonSharedArrayBuffer h V =
     (case Reflect_apply h (Intrinsic AbByteLengthGetter) V [] of
        Inr _ \<Rightarrow> True
      | Inl _ \<Rightarrow> False)"

definition isSharedArrayBuffer :: "host \<Rightarrow> jsval \<Rightarrow> bool" where
  "isSharedArrayBuffer h V =
     (case Reflect_apply h (Intrinsic SabByteLengthGetter) V [] of
        Inr _ \<Rightarrow> True
      | Inl _ \<Rightarrow> False)"

text \<open>
  \<^verbatim>\<open>new Uint8Array(V)\<close> raises on a detached buffer and succeeds on any other buffer;
  on a value that is not a buffer the outcome is the host's.
\<close>

definition isArrayBufferDetached :: "host \<Rightarrow> jsval \<Rightarrow> bool" where
  "isArrayBufferDetached h V =
     (case V of
        Object r \<Rightarrow>
          (case heap h r of
             ArrayBufferObj detached n \<Rightarrow> detached
           | SharedArrayBufferObj n \<Rightarrow> False
           | _ \<Rightarrow> Uint8ArrayFromThrows h V)
      | _ \<Rightarrow> Uint8ArrayFromThrows h V)"

definition export_ArrayBuffer :: "host \<Rightarrow> jsval \<Rightarrow> opts \<Rightarrow> jserror + jsval" where
  "export_ArrayBuffer h V opts =
     (if \<not> isNonSharedArrayBuffer h V then
        (if opt_allowShared opts \<and> \<not> isSharedArrayBuffer h V
         then Inl (makeException TypeError ''is not an ArrayBuffer or SharedArrayBuffer'' opts)
         else Inl (makeException TypeError ''is not an ArrayBuffer'' opts))
      else if isArrayBufferDetached h V
      then Inl (makeException TypeError ''is a detached ArrayBuffer'' opts)
      else Inr V)"

text \<open>
  \<^verbatim>\<open>export_DataView\<close>. The probe is \<^verbatim>\<open>apply(V, dvByteLengthGetter, emptyList)\<close>: the
  value is the target and the getter the receiver. The buffer is then read with
  \<^verbatim>\<open>dvBufferGetter(V)\<close>, a plain call, whose receiver is \<^verbatim>\<open>undefined\<close>.
\<close>

definition export_DataView :: "host \<Rightarrow> jsval \<Rightarrow> opts \<Rightarrow> jserror + jsval" where
  "export_DataView h V opts =
     (case Reflect_apply h V (Intrinsic DvByteLengthGetter) [] of
        Inl e \<Rightarrow> Inl (makeException TypeError ''is not a DataView'' opts)
      | Inr _ \<Rightarrow>
          (case call_intrinsic h DvBufferGetter Undefined of
             Inl e \<Rightarrow> Inl e
           | Inr buffer \<Rightarrow>
               if \<not> opt_allowShared opts \<and> isSharedArrayBuffer h buffer
               then Inl (makeException TypeError
                      ''is backed by a SharedArrayBuffer, which is not allowed'' opts)
               else if isArrayBufferDetached h buffer
               then Inl (makeException TypeError ''is backed by a detached ArrayBuffer'' opts)
               else Inr V))"

text \<open>
  \<^verbatim>\<open>export_BufferSource\<close>, the union converter. \<^verbatim>\<open>ArrayBuffer.isView\<close> holds of the
  typed arrays and the DataViews. The branch for views reads its buffer from the
  identifier \<^verbatim>\<open>A\<close>, which is bound nowhere.
\<close>

definition isView :: "host \<Rightarrow> jsval \<Rightarrow> bool" where
  "isView h V =
     (case V of
        Object r \<Rightarrow>
          (case heap h r of
             DataViewObj b n \<Rightarrow> True
           | TypedArrayObj b \<Rightarrow> True
           | _ \<Rightarrow> False)
      | _ \<Rightarrow> False)"

definition export_BufferSource :: "host \<Rightarrow> jsval \<Rightarrow> opts \<Rightarrow> jserror + jsval" where
  "export_BufferSource h V opts =
     (if isView h V then Inl (Thrown ReferenceError ''A is not defined'')
      else if \<not> opt_allowShared opts \<and> \<not> isNonSharedArrayBuffer h V
      then Inl (makeException TypeError ''is not an ArrayBuffer or a view on one'' opts)
      else if opt_allowShared opts \<and> \<not> isSharedArrayBuffer h V
              \<and> \<not> isNonSharedArrayBuffer h V
      then Inl (makeException TypeError
             ''is not an ArrayBuffer, SharedArrayBuffer, or a view on one'' opts)
      else if isArrayBufferDetached h V
      then Inl (makeException TypeError ''is a detached ArrayBuffer'' opts)
      else Inr V)"

text \<open>
  A heap with one object of each kind, for evaluating the converters: 0 is an
  \<^verbatim>\<open>ArrayBuffer\<close> of 8 bytes, 1 a \<^verbatim>\<open>SharedArrayBuffer\<close> of 8 bytes, 2 a \<^verbatim>\<open>DataView\<close> on
  buffer 0, 3 a detached \<^verbatim>\<open>ArrayBuffer\<close>, 4 a function that returns \<^verbatim>\<open>undefined\<close>; every
  other reference is a plain object. No string is a numeral and every object converts
  to NaN and to the empty string.
\<close>

definition sample_heap :: "ref \<Rightarrow> jsobj" where
  "sample_heap r =
     (if r = 0 then ArrayBufferObj False 8
      else if r = 1 then SharedArrayBufferObj 8
      else if r = 2 then DataViewObj 0 8
      else if r = 3 then ArrayBufferObj True 8
      else if r = 4 then FunctionObj
      else OrdinaryObj)"

definition sample_host :: host where
  "sample_host =
     \<lparr>heap = sample_heap,
      StringToNumber = (\<lambda>s. NaN),
      ObjectToNumber = (\<lambda>r. Inr NaN),
      HostToString = (\<lambda>v. Inr []),
      callFunction = (\<lambda>r this args. Inr Undefined),
      fround = (\<lambda>x. x),
      Uint8ArrayFromThrows = (\<lambda>v. False)\<rparr>"

section \<open>Configurations and converter tables used in the statements\<close>

definition enforceRange_opts :: opts where
  "enforceRange_opts = default_opts\<lparr>opt_enforceRange := True\<rparr>"

definition clamp_opts :: opts where
  "clamp_opts = default_opts\<lparr>opt_clamp := True\<rparr>"

definition allowShared_opts :: opts where
  "allowShared_opts = default_opts\<lparr>opt_allowShared := True\<rparr>"

text \<open>Applying a converter to its own result.\<close>

definition twice ::
  "(host \<Rightarrow> jsval \<Rightarrow> opts \<Rightarrow> jserror + jsval) \<Rightarrow> host \<Rightarrow> jsval \<Rightarrow> opts \<Rightarrow> jserror + jsval" where
  "twice c h V opts = (case c h V opts of Inl e \<Rightarrow> Inl e | Inr v \<Rightarrow> c h v opts)"

text \<open>The integers of the two's-complement window of a width and signedness.\<close>

definition representable :: "nat \<Rightarrow> bool \<Rightarrow> int \<Rightarrow> bool" where
  "representable bitLength is_unsigned n =
     (if is_unsigned then 0 \<le> n \<and> n < 2 ^ bitLength
      else - (2 ^ (bitLength - 1)) \<le> n \<and> n < 2 ^ (bitLength - 1))"

text \<open>
  The range of a 64-bit converter: the bounds \<^verbatim>\<open>lowerBound\<close> and \<^verbatim>\<open>upperBound\<close> of
  \<^verbatim>\<open>createLongLongConversion\<close>, which are the safe integers (from 0 when unsigned).
  Every integer of this range is the value of a Number.
\<close>

definition safe_representable :: "bool \<Rightarrow> int \<Rightarrow> bool" where
  "safe_representable is_unsigned n =
     ((if is_unsigned then 0 else MIN_SAFE_INTEGER) \<le> n \<and> n \<le> MAX_SAFE_INTEGER)"

text \<open>The exported integer converters with the parameters they are built from.\<close>

definition narrow_converters ::
  "((host \<Rightarrow> jsval \<Rightarrow> opts \<Rightarrow> jserror + jsval) \<times> nat \<times> bool) list" where
  "narrow_converters =
     [(export_byte, 8, False), (export_octet, 8, True),
      (export_short, 16, False), (export_unsigned_short, 16, True),
      (export_long, 32, False), (export_unsigned_long, 32, True)]"

definition wide_converters ::
  "((host \<Rightarrow> jsval \<Rightarrow> opts \<Rightarrow> jserror + jsval) \<times> nat \<times> bool) list" where
  "wide_converters =
     [(export_long_long, 64, False), (export_unsigned_long_long, 64, True)]"

definition symbol_coercion_error :: jserror where
  "symbol_coercion_error = Thrown TypeError ''Cannot convert a Symbol value to a number''"

definition bigint_coercion_error :: jserror where
  "bigint_coercion_error = Thrown TypeError ''Cannot convert a BigInt value to a number''"

section \<open>Evaluation lemmas\<close>

lemma rat_floor_numeral_div:
  "\<lfloor>numeral a / numeral b :: rat\<rfloor> = numeral a div numeral b"
  by (metis floor_divide_of_int_eq of_int_numeral)

lemma rat_floor_neg_numeral_div:
  "\<lfloor>- (numeral a / numeral b) :: rat\<rfloor> = - numeral a div numeral b"
  by (metis divide_minus_left floor_divide_of_int_eq of_int_neg_numeral of_int_numeral)

lemma rat_ceiling_numeral_div:
  "\<lceil>numeral a / numeral b :: rat\<rceil> = - (- numeral a div numeral b)"
  by (simp add: ceiling_def rat_floor_neg_numeral_div)

lemma rat_ceiling_neg_numeral_div:
  "\<lceil>- (numeral a / numeral b) :: rat\<rceil> = - (numeral a div numeral b)"
  by (simp add: ceiling_def rat_floor_numeral_div)

lemmas rat_round_simps =
  rat_floor_numeral_div rat_floor_neg_numeral_div rat_ceiling_numeral_div
  rat_ceiling_neg_numeral_div

lemmas opts_simps = default_opts_def enforceRange_opts_def clamp_opts_def allowShared_opts_def

lemmas number_simps =
  censorNegativeZero_def strict_eq_def integerPart_def rat_trunc_def
  js_lt_def js_gt_def js_le_def js_ge_def js_less_def

lemmas message_simps = makeException_def context_label_def range_message_def show_int_def

lemma default_opts_sel:
  "opt_enforceRange default_opts = False" "opt_clamp default_opts = False"
  "opt_treatNullAsEmptyString default_opts = False" "opt_allowShared default_opts = False"
  "opt_context default_opts = None" "opt_globals default_opts = None"
  by (simp_all add: default_opts_def)

lemma toNumber_Number: "toNumber h (Number x) default_opts = Inr x"
  by (simp add: toNumber_def default_opts_sel)

lemma toNumber_BigInt_default: "toNumber h (BigInt b) default_opts = Inl bigint_coercion_error"
  by (simp add: toNumber_def default_opts_sel bigint_coercion_error_def)

lemma toNumber_BigInt_raises: "\<exists>e. toNumber h (BigInt b) opts = Inl e"
  by (simp add: toNumber_def split: option.splits)

lemma censorNegativeZero_Fin: "censorNegativeZero (Fin r) = Fin r"
  by (simp add: censorNegativeZero_def strict_eq_def)

lemma rat_trunc_of_int: "rat_trunc (of_int n) = n"
  by (simp add: rat_trunc_def)

text \<open>On a finite value \<^verbatim>\<open>integerPart\<close> is truncation toward zero, with a positive zero.\<close>

lemma integerPart_Fin: "integerPart (Fin r) = Fin (of_int (rat_trunc r))"
proof (cases "- 1 < r \<and> r < 0")
  case True
  then have "\<lceil>r\<rceil> = 0" by (intro ceiling_unique) simp_all
  with True show ?thesis
    by (simp add: integerPart_def censorNegativeZero_def strict_eq_def rat_trunc_def)
next
  case False
  then have "Math_trunc (Fin r) = Fin (of_int (rat_trunc r))" by auto
  then show ?thesis by (simp add: integerPart_def censorNegativeZero_Fin)
qed

lemma narrow_coercion_error:
  "toNumber h V opts = Inl e \<Longrightarrow> createIntegerConversion bits u h V opts = Inl e"
  by (simp add: createIntegerConversion_def)

lemma wide_coercion_error:
  "toNumber h V opts = Inl e \<Longrightarrow> createLongLongConversion bits u h V opts = Inl e"
  by (simp add: createLongLongConversion_def)

section \<open>The narrow integer converters\<close>

text \<open>An integer of the window is returned as it is by the default policy.\<close>

lemma narrow_in_range:
  assumes "bits = 8 \<or> bits = 16 \<or> bits = 32" and "representable bits u n"
  shows "createIntegerConversion bits u h (Number (Fin (of_int n))) default_opts =
           Inr (Number (Fin (of_int n)))"
  using assms
  by (auto simp add: createIntegerConversion_def integer_bounds_def toNumber_Number
      censorNegativeZero_Fin integerPart_Fin rat_trunc_of_int representable_def
      strict_eq_def js_ge_def js_le_def js_less_def default_opts_sel)

text \<open>
  \<^verbatim>\<open>modulo\<close> never returns: it calls \<^verbatim>\<open>sign(y)\<close> first, and both branches of \<^verbatim>\<open>sign\<close>
  read an unbound identifier.
\<close>

lemma modulo_raises:
  "modulo x y =
     Inl (Thrown ReferenceError
            (if js_lt (NumV y) (NumV (Fin 0)) then ''Negative is not defined''
             else ''Positive is not defined''))"
  by (simp add: modulo_def sign_def Negative_def Positive_def)

text \<open>
  The saturating policy of a narrow converter never returns either: its bounds are
  BigInts, and \<^verbatim>\<open>Math.max(x, lowerBound)\<close> raises on a BigInt argument.
\<close>

lemma narrow_clamp_raises:
  assumes "bits \<noteq> 64" and "\<not> opt_enforceRange opts" and "opt_clamp opts"
    and "toNumber h V opts = Inr x" and "\<not> isNaN x"
  shows "createIntegerConversion bits u h V opts = Inl bigint_coercion_error"
proof -
  have "\<not> isNaN (censorNegativeZero x)"
    using assms(5) by (cases x) (simp_all add: censorNegativeZero_def)
  with assms(1-4) show ?thesis
    by (simp add: createIntegerConversion_def integer_bounds_def clamp_def Math_max_def
        bigint_coercion_error_def Let_def)
qed

text \<open>
  The default policy of a narrow converter returns on no input whose truncation is
  outside the range: it reaches \<^verbatim>\<open>modulo\<close>.
\<close>

lemma narrow_wrap_raises:
  assumes "bits = 8 \<or> bits = 16 \<or> bits = 32"
    and "\<not> opt_enforceRange opts" and "\<not> opt_clamp opts"
    and "toNumber h V opts = Inr (Fin r)" and "\<not> representable bits u (rat_trunc r)"
  shows "createIntegerConversion bits u h V opts =
           Inl (Thrown ReferenceError ''Positive is not defined'')"
proof -
  have nz: "r \<noteq> 0"
  proof
    assume "r = 0"
    then have "rat_trunc r = 0" by (simp add: rat_trunc_def)
    with assms(1,5) show False by (cases u) (auto simp add: representable_def)
  qed
  have out: "\<not> (js_ge (NumV (Fin (of_int (rat_trunc r)))) (bound_numeric (fst (integer_bounds bits u)))
             \<and> js_le (NumV (Fin (of_int (rat_trunc r)))) (bound_numeric (snd (integer_bounds bits u))))"
    using assms(1,5)
    by (cases u) (auto simp add: integer_bounds_def representable_def js_ge_def js_le_def js_less_def)
  show ?thesis
    using assms(1-4) nz out
    by (simp add: createIntegerConversion_def censorNegativeZero_Fin integerPart_Fin
        strict_eq_def modulo_raises js_lt_def js_less_def Let_def)
qed

text \<open>
  Claim C1 says that an integer converter of width 8, 16 or 32 called with \<open>clamp\<close> set
  and an input that coerces to a number other than NaN returns the input saturated
  into its range and rounded half to even: the 8-bit unsigned converter gives 255 for
  300, 128 for 127.5 and 126 for 126.5. The code raises a TypeError on each of these
  inputs instead: \<^verbatim>\<open>clamp\<close> hands the BigInt bounds to \<^verbatim>\<open>Math.max\<close>.
\<close>

theorem octet_clamp_raises:
  "export_octet h (Number (Fin 300)) clamp_opts = Inl bigint_coercion_error
   \<and> export_octet h (Number (Fin 127.5)) clamp_opts = Inl bigint_coercion_error
   \<and> export_octet h (Number (Fin 126.5)) clamp_opts = Inl bigint_coercion_error"
  by (simp add: export_octet_def createIntegerConversion_def integer_bounds_def toNumber_def
      opts_simps number_simps clamp_def Math_max_def bigint_coercion_error_def)

theorem octet_clamp_raises_witness:
  "export_octet sample_host (Number (Fin 300)) clamp_opts = Inl bigint_coercion_error
   \<and> export_octet sample_host (Number (Fin 127.5)) clamp_opts = Inl bigint_coercion_error
   \<and> export_octet sample_host (Number (Fin 126.5)) clamp_opts = Inl bigint_coercion_error"
  by (rule octet_clamp_raises)

text \<open>
  Claim C7 says that a signed converter of width 8, 16 or 32 under default options wraps
  a finite non-zero input whose truncation is outside the range into it (two's
  complement), so that the byte converter maps 200 to -56. The code raises a
  ReferenceError on 200: the wrap-around path calls \<^verbatim>\<open>modulo\<close>, which calls \<^verbatim>\<open>sign\<close>.
\<close>

theorem byte_wrap_raises:
  "export_byte h (Number (Fin 200)) default_opts =
     Inl (Thrown ReferenceError ''Positive is not defined'')"
  by (simp add: export_byte_def createIntegerConversion_def integer_bounds_def toNumber_def
      opts_simps number_simps modulo_raises)

theorem byte_wrap_raises_witness:
  "export_byte sample_host (Number (Fin 200)) default_opts =
     Inl (Thrown ReferenceError ''Positive is not defined'')"
  by (rule byte_wrap_raises)

text \<open>
  Claim C8 says that the 8-bit unsigned converter under default options returns 0 for 256,
  255 for -1 and 255 for 255.9. The code returns 255 for 255.9 (truncated, then in
  range), and raises a ReferenceError for 256 and for -1, which take the wrap-around
  path through \<^verbatim>\<open>modulo\<close> and \<^verbatim>\<open>sign\<close>.
\<close>

theorem octet_default_wrap:
  "export_octet h (Number (Fin 256)) default_opts =
     Inl (Thrown ReferenceError ''Positive is not defined'')
   \<and> export_octet h (Number (Fin (- 1))) default_opts =
     Inl (Thrown ReferenceError ''Positive is not defined'')
   \<and> export_octet h (Number (Fin 255.9)) default_opts = Inr (Number (Fin 255))"
  by (simp add: export_octet_def createIntegerConversion_def integer_bounds_def toNumber_def
      opts_simps number_simps rat_round_simps modulo_raises)

theorem octet_default_wrap_witness:
  "export_octet sample_host (Number (Fin 256)) default_opts =
     Inl (Thrown ReferenceError ''Positive is not defined'')
   \<and> export_octet sample_host (Number (Fin (- 1))) default_opts =
     Inl (Thrown ReferenceError ''Positive is not defined'')
   \<and> export_octet sample_host (Number (Fin 255.9)) default_opts = Inr (Number (Fin 255))"
  by (rule octet_default_wrap)

text \<open>
  Claim C9: the 8-bit signed converter with \<open>enforceRange\<close> set fails with the error of
  \<^verbatim>\<open>makeException\<close> for 200, for NaN and for Infinity, and returns -128 for -128.9: the
  input is truncated toward zero before it is compared with the bounds.
\<close>

theorem byte_enforceRange:
  "export_byte h (Number (Fin 200)) enforceRange_opts =
     Inl (makeException TypeError
            ''is outside the accepted range of -128 to 127, inclusive'' enforceRange_opts)
   \<and> export_byte h (Number NaN) enforceRange_opts =
     Inl (makeException TypeError ''is not a finite number'' enforceRange_opts)
   \<and> export_byte h (Number PosInf) enforceRange_opts =
     Inl (makeException TypeError ''is not a finite number'' enforceRange_opts)
   \<and> export_byte h (Number (Fin (- 128.9))) enforceRange_opts = Inr (Number (Fin (- 128)))"
  by (simp add: export_byte_def createIntegerConversion_def integer_bounds_def toNumber_def
      opts_simps number_simps message_simps rat_round_simps)

theorem byte_enforceRange_witness:
  "export_byte sample_host (Number (Fin 200)) enforceRange_opts =
     Inl (Thrown TypeError ''Value is outside the accepted range of -128 to 127, inclusive.'')
   \<and> export_byte sample_host (Number NaN) enforceRange_opts =
     Inl (Thrown TypeError ''Value is not a finite number.'')
   \<and> export_byte sample_host (Number PosInf) enforceRange_opts =
     Inl (Thrown TypeError ''Value is not a finite number.'')
   \<and> export_byte sample_host (Number (Fin (- 128.9))) enforceRange_opts =
     Inr (Number (Fin (- 128)))"
  using byte_enforceRange [of sample_host]
  by (simp add: opts_simps message_simps)

section \<open>The 64-bit converters\<close>

text \<open>Inside the window the two wrapping functions are the identity.\<close>

lemma asIntN_in_range:
  assumes "- (2 ^ 63) \<le> n" and "n < 2 ^ 63"
  shows "asIntN 64 n = n"
proof (cases "0 \<le> n")
  case True
  with assms have "n mod 2 ^ 64 = n" by simp
  with assms show ?thesis by (simp add: asIntN_def)
next
  case False
  have "n mod 2 ^ 64 = (n + 2 ^ 64) mod 2 ^ 64" by simp
  also have "\<dots> = n + 2 ^ 64" using assms False by (intro mod_pos_pos_trivial) simp_all
  finally show ?thesis using False assms by (simp add: asIntN_def)
qed

lemma asUintN_in_range:
  assumes "0 \<le> n" and "n < 2 ^ 64"
  shows "asUintN 64 n = n"
  using assms by (simp add: asUintN_def)

text \<open>
  The default policy of \<^verbatim>\<open>createLongLongConversion\<close> on an input that coerces to a finite
  non-zero Number, and on one that coerces to a zero or to a value that is not finite.
\<close>

lemma wide_default:
  assumes "\<not> opt_enforceRange opts" and "\<not> opt_clamp opts"
    and "toNumber h V opts = Inr x" and "isFinite x" and "\<not> strict_eq x (Fin 0)"
  shows "createLongLongConversion bits u h V opts =
           Inr (BigInt ((if u then asUintN else asIntN) bits (rat_trunc (num_val x))))"
proof -
  from assms(4,5) obtain r where x: "x = Fin r" and r: "r \<noteq> 0"
    by (cases x) (auto simp add: strict_eq_def)
  have "NumberToBigInt (integerPart (Fin r)) = Inr (rat_trunc r)"
    by (simp add: integerPart_Fin)
  with assms(1-3) x r show ?thesis
    by (simp add: createLongLongConversion_def censorNegativeZero_Fin strict_eq_def)
qed

lemma wide_zero:
  assumes "\<not> opt_enforceRange opts" and "\<not> opt_clamp opts"
    and "toNumber h V opts = Inr x" and "\<not> isFinite x \<or> strict_eq x (Fin 0)"
  shows "createLongLongConversion bits u h V opts = Inr (Number (Fin 0))"
proof (cases "strict_eq x (Fin 0)")
  case True
  then have "censorNegativeZero x = Fin 0" by (simp add: censorNegativeZero_def)
  with assms(1-3) show ?thesis
    by (simp add: createLongLongConversion_def strict_eq_def)
next
  case False
  with assms(4) have nf: "\<not> isFinite x" by simp
  from False have "censorNegativeZero x = x" by (simp add: censorNegativeZero_def)
  with assms(1-3) nf show ?thesis
    by (simp add: createLongLongConversion_def)
qed

text \<open>
  Claim C5 says that the 64-bit converters accept arbitrary-precision integer inputs and
  return arbitrary-precision integers, coercing the input to such an integer rather than
  going through double-precision numbers. The code does otherwise, by its explicit
  coercion: every converter starts with \<^verbatim>\<open>toNumber\<close>, which raises a TypeError on a
  BigInt (with an alternate realm, whatever that realm's \<^verbatim>\<open>TypeError\<close> builds); and the
  result for a zero or non-finite input is the Number 0.
\<close>

theorem long_long_bigint_counterexample:
  "export_long_long sample_host (BigInt 5) default_opts =
     Inl (Thrown TypeError ''Cannot convert a BigInt value to a number'')
   \<and> export_long_long sample_host (Number (Fin 0)) default_opts = Inr (Number (Fin 0))"
  by (simp add: export_long_long_def createLongLongConversion_def toNumber_def
      default_opts_def number_simps)

text \<open>
  Claim C5 as amended: the 64-bit converters reject every BigInt input, the numeric
  coercion raising (a TypeError when no alternate realm is configured). Under the
  default policy the input is first coerced to a Number; a finite non-zero Number is
  truncated toward zero, converted to a BigInt and wrapped into the 64-bit window with
  \<^verbatim>\<open>asIntN\<close> or \<^verbatim>\<open>asUintN\<close>, and that BigInt is returned; a zero or non-finite Number
  gives the Number 0.
\<close>

theorem long_long_policy:
  "(\<exists>e. toNumber h (BigInt b) opts = Inl e
        \<and> export_long_long h (BigInt b) opts = Inl e
        \<and> export_unsigned_long_long h (BigInt b) opts = Inl e)
   \<and> (opt_globals opts = None \<longrightarrow>
        export_long_long h (BigInt b) opts = Inl bigint_coercion_error
        \<and> export_unsigned_long_long h (BigInt b) opts = Inl bigint_coercion_error)
   \<and> (\<not> opt_enforceRange opts \<and> \<not> opt_clamp opts \<and> toNumber h V opts = Inr x
        \<and> isFinite x \<and> \<not> strict_eq x (Fin 0) \<longrightarrow>
        export_long_long h V opts = Inr (BigInt (asIntN 64 (rat_trunc (num_val x))))
        \<and> export_unsigned_long_long h V opts =
            Inr (BigInt (asUintN 64 (rat_trunc (num_val x)))))
   \<and> (\<not> opt_enforceRange opts \<and> \<not> opt_clamp opts \<and> toNumber h V opts = Inr x
        \<and> (\<not> isFinite x \<or> strict_eq x (Fin 0)) \<longrightarrow>
        export_long_long h V opts = Inr (Number (Fin 0))
        \<and> export_unsigned_long_long h V opts = Inr (Number (Fin 0)))"
proof (intro conjI impI)
  obtain e where e: "toNumber h (BigInt b) opts = Inl e"
    using toNumber_BigInt_raises by blast
  then show "\<exists>e. toNumber h (BigInt b) opts = Inl e
        \<and> export_long_long h (BigInt b) opts = Inl e
        \<and> export_unsigned_long_long h (BigInt b) opts = Inl e"
    by (simp add: export_long_long_def export_unsigned_long_long_def wide_coercion_error)
next
  assume "opt_globals opts = None"
  then have t: "toNumber h (BigInt b) opts = Inl bigint_coercion_error"
    by (simp add: toNumber_def bigint_coercion_error_def)
  from t show "export_long_long h (BigInt b) opts = Inl bigint_coercion_error"
    by (simp add: export_long_long_def wide_coercion_error)
  from t show "export_unsigned_long_long h (BigInt b) opts = Inl bigint_coercion_error"
    by (simp add: export_unsigned_long_long_def wide_coercion_error)
next
  assume a: "\<not> opt_enforceRange opts \<and> \<not> opt_clamp opts \<and> toNumber h V opts = Inr x
        \<and> isFinite x \<and> \<not> strict_eq x (Fin 0)"
  then show "export_long_long h V opts = Inr (BigInt (asIntN 64 (rat_trunc (num_val x))))"
    unfolding export_long_long_def using wide_default [of opts h V x 64 False] by simp
  from a show "export_unsigned_long_long h V opts =
            Inr (BigInt (asUintN 64 (rat_trunc (num_val x))))"
    unfolding export_unsigned_long_long_def using wide_default [of opts h V x 64 True] by simp
next
  assume a: "\<not> opt_enforceRange opts \<and> \<not> opt_clamp opts \<and> toNumber h V opts = Inr x
        \<and> (\<not> isFinite x \<or> strict_eq x (Fin 0))"
  then show "export_long_long h V opts = Inr (Number (Fin 0))"
    unfolding export_long_long_def using wide_zero [of opts h V x 64 False] by simp
  from a show "export_unsigned_long_long h V opts = Inr (Number (Fin 0))"
    unfolding export_unsigned_long_long_def using wide_zero [of opts h V x 64 True] by simp
qed

theorem long_long_policy_witness:
  "export_long_long sample_host (BigInt 5) default_opts = Inl bigint_coercion_error
   \<and> export_unsigned_long_long sample_host (BigInt 5) default_opts = Inl bigint_coercion_error
   \<and> toNumber sample_host (Number (Fin (- 5.5))) default_opts = Inr (Fin (- 5.5))
   \<and> export_long_long sample_host (Number (Fin (- 5.5))) default_opts = Inr (BigInt (- 5))
   \<and> export_unsigned_long_long sample_host (Number (Fin (- 5.5))) default_opts =
       Inr (BigInt 18446744073709551611)"
  using long_long_policy [of sample_host 5 default_opts "Number (Fin (- 5.5))" "Fin (- 5.5)"]
  by (simp add: default_opts_sel toNumber_Number strict_eq_def rat_trunc_def rat_round_simps
      asIntN_def asUintN_def)

text \<open>
  Claim C6 says that every integer converter under default options returns an in-range
  integer unchanged, and again when applied to its own result. For the 64-bit converters
  the result for 5 is the BigInt 5, and the second application raises a TypeError.
\<close>

theorem long_long_twice_counterexample:
  "export_long_long sample_host (Number (Fin 5)) default_opts = Inr (BigInt 5)
   \<and> twice export_long_long sample_host (Number (Fin 5)) default_opts =
       Inl (Thrown TypeError ''Cannot convert a BigInt value to a number'')"
  by (simp add: twice_def export_long_long_def createLongLongConversion_def toNumber_def
      default_opts_def number_simps asIntN_def)

text \<open>
  Claim C6 as amended: for the converters of width 8, 16 and 32 (byte, octet, short,
  unsigned short, long, unsigned long) under default options and every integer \<open>n\<close> of
  the converter's range, \<open>c n = n\<close> and \<open>c (c n) = n\<close>. For the 64-bit converters,
  \<open>c 0 = 0\<close> and \<open>c (c 0) = 0\<close>; for a non-zero integer \<open>n\<close> of the converter's range (the
  safe integers, from 0 when unsigned) \<open>c n\<close> is the BigInt \<open>n\<close>, and applying \<open>c\<close> to that
  BigInt raises a TypeError.
\<close>

theorem integer_roundtrip:
  "((c, bits, u) \<in> set narrow_converters \<and> representable bits u n \<longrightarrow>
      c h (Number (Fin (of_int n))) default_opts = Inr (Number (Fin (of_int n)))
      \<and> twice c h (Number (Fin (of_int n))) default_opts = Inr (Number (Fin (of_int n))))
   \<and> ((c, bits, u) \<in> set wide_converters \<and> safe_representable u n \<and> n \<noteq> 0 \<longrightarrow>
      c h (Number (Fin (of_int n))) default_opts = Inr (BigInt n)
      \<and> twice c h (Number (Fin (of_int n))) default_opts =
          Inl bigint_coercion_error)
   \<and> ((c, bits, u) \<in> set wide_converters \<longrightarrow>
      c h (Number (Fin 0)) default_opts = Inr (Number (Fin 0))
      \<and> twice c h (Number (Fin 0)) default_opts = Inr (Number (Fin 0)))"
proof (intro conjI impI)
  assume a: "(c, bits, u) \<in> set narrow_converters \<and> representable bits u n"
  then have c: "c = createIntegerConversion bits u" and b: "bits = 8 \<or> bits = 16 \<or> bits = 32"
    by (auto simp add: narrow_converters_def export_byte_def export_octet_def export_short_def
        export_unsigned_short_def export_long_def export_unsigned_long_def)
  from a b show once: "c h (Number (Fin (of_int n))) default_opts = Inr (Number (Fin (of_int n)))"
    unfolding c by (intro narrow_in_range) simp_all
  then show "twice c h (Number (Fin (of_int n))) default_opts = Inr (Number (Fin (of_int n)))"
    by (simp add: twice_def)
next
  assume a: "(c, bits, u) \<in> set wide_converters \<and> safe_representable u n \<and> n \<noteq> 0"
  then have c: "c = createLongLongConversion 64 u" and b: "bits = 64"
    by (auto simp add: wide_converters_def export_long_long_def export_unsigned_long_long_def)
  have w: "(if u then asUintN else asIntN) 64 n = n"
  proof (cases u)
    case True
    with a have "0 \<le> n" and "n < 2 ^ 64"
      by (simp_all add: safe_representable_def MAX_SAFE_INTEGER_def)
    with True show ?thesis by (simp add: asUintN_in_range)
  next
    case False
    with a have "- (2 ^ 63) \<le> n" and "n < 2 ^ 63"
      by (simp_all add: safe_representable_def MAX_SAFE_INTEGER_def MIN_SAFE_INTEGER_def)
    with False show ?thesis by (simp add: asIntN_in_range)
  qed
  have "c h (Number (Fin (of_int n))) default_opts =
          Inr (BigInt ((if u then asUintN else asIntN) 64 (rat_trunc (num_val (Fin (of_int n))))))"
    unfolding c using a
    by (intro wide_default) (simp_all add: toNumber_Number default_opts_sel strict_eq_def)
  with w show once: "c h (Number (Fin (of_int n))) default_opts = Inr (BigInt n)"
    by (simp add: rat_trunc_of_int)
  have "c h (BigInt n) default_opts =
          Inl bigint_coercion_error"
    unfolding c by (intro wide_coercion_error toNumber_BigInt_default)
  with once show "twice c h (Number (Fin (of_int n))) default_opts =
          Inl bigint_coercion_error"
    by (simp add: twice_def)
next
  assume a: "(c, bits, u) \<in> set wide_converters"
  then have c: "c = createLongLongConversion 64 u"
    by (auto simp add: wide_converters_def export_long_long_def export_unsigned_long_long_def)
  show once: "c h (Number (Fin 0)) default_opts = Inr (Number (Fin 0))"
    unfolding c
    by (intro wide_zero[where x = "Fin 0"]) (simp_all add: toNumber_Number default_opts_sel strict_eq_def)
  then show "twice c h (Number (Fin 0)) default_opts = Inr (Number (Fin 0))"
    by (simp add: twice_def)
qed

theorem integer_roundtrip_witness:
  "(export_byte, 8, False) \<in> set narrow_converters \<and> representable 8 False (- 128)
   \<and> export_byte sample_host (Number (Fin (- 128))) default_opts = Inr (Number (Fin (- 128)))
   \<and> twice export_byte sample_host (Number (Fin (- 128))) default_opts = Inr (Number (Fin (- 128)))
   \<and> (export_unsigned_long_long, 64, True) \<in> set wide_converters
   \<and> safe_representable True 5 \<and> (5 :: int) \<noteq> 0
   \<and> export_unsigned_long_long sample_host (Number (Fin 5)) default_opts = Inr (BigInt 5)
   \<and> twice export_unsigned_long_long sample_host (Number (Fin 5)) default_opts =
       Inl bigint_coercion_error
   \<and> (export_long_long, 64, False) \<in> set wide_converters
   \<and> safe_representable False (- 9007199254740991) \<and> (- 9007199254740991 :: int) \<noteq> 0
   \<and> export_long_long sample_host (Number (Fin (- 9007199254740991))) default_opts =
       Inr (BigInt (- 9007199254740991))
   \<and> twice export_long_long sample_host (Number (Fin (- 9007199254740991))) default_opts =
       Inl bigint_coercion_error
   \<and> export_unsigned_long_long sample_host (Number (Fin 0)) default_opts = Inr (Number (Fin 0))
   \<and> twice export_unsigned_long_long sample_host (Number (Fin 0)) default_opts = Inr (Number (Fin 0))"
  using integer_roundtrip [of export_byte 8 False "- 128" sample_host]
    integer_roundtrip [of export_unsigned_long_long 64 True 5 sample_host]
    integer_roundtrip [of export_long_long 64 False "- 9007199254740991" sample_host]
  by (simp add: narrow_converters_def wide_converters_def representable_def
      safe_representable_def MAX_SAFE_INTEGER_def MIN_SAFE_INTEGER_def)

section \<open>Symbols\<close>

text \<open>
  Claim C10: without an alternate realm, every converter of the numeric family (byte,
  octet, short, unsigned short, long, unsigned long, long long, unsigned long long,
  double, unrestricted double, float, unrestricted float) raises on a symbol the
  TypeError of the numeric coercion step, so none returns a value for a symbol.
\<close>

theorem numeric_family_symbol:
  assumes "opt_globals opts = None"
  shows "toNumber h (Sym s) opts = Inl symbol_coercion_error
   \<and> export_byte h (Sym s) opts = Inl symbol_coercion_error
   \<and> export_octet h (Sym s) opts = Inl symbol_coercion_error
   \<and> export_short h (Sym s) opts = Inl symbol_coercion_error
   \<and> export_unsigned_short h (Sym s) opts = Inl symbol_coercion_error
   \<and> export_long h (Sym s) opts = Inl symbol_coercion_error
   \<and> export_unsigned_long h (Sym s) opts = Inl symbol_coercion_error
   \<and> export_long_long h (Sym s) opts = Inl symbol_coercion_error
   \<and> export_unsigned_long_long h (Sym s) opts = Inl symbol_coercion_error
   \<and> export_double h (Sym s) opts = Inl symbol_coercion_error
   \<and> export_unrestricted_double h (Sym s) opts = Inl symbol_coercion_error
   \<and> export_float h (Sym s) opts = Inl symbol_coercion_error
   \<and> export_unrestricted_float h (Sym s) opts = Inl symbol_coercion_error"
proof -
  have t: "toNumber h (Sym s) opts = Inl symbol_coercion_error"
    using assms by (simp add: toNumber_def symbol_coercion_error_def)
  show ?thesis
    by (simp add: t narrow_coercion_error wide_coercion_error
        export_byte_def export_octet_def export_short_def export_unsigned_short_def
        export_long_def export_unsigned_long_def export_long_long_def
        export_unsigned_long_long_def export_double_def export_unrestricted_double_def
        export_float_def export_unrestricted_float_def)
qed

theorem numeric_family_symbol_witness:
  "opt_globals clamp_opts = None
   \<and> export_byte sample_host (Sym 0) clamp_opts = Inl symbol_coercion_error
   \<and> export_unsigned_long_long sample_host (Sym 0) clamp_opts = Inl symbol_coercion_error
   \<and> export_double sample_host (Sym 0) clamp_opts = Inl symbol_coercion_error
   \<and> export_unrestricted_float sample_host (Sym 0) clamp_opts = Inl symbol_coercion_error"
proof -
  have g: "opt_globals clamp_opts = None" by (simp add: opts_simps)
  from numeric_family_symbol [OF g, of sample_host 0] g show ?thesis by simp
qed

section \<open>Buffers and views\<close>

text \<open>
  Claim C2 says that the buffer-only converter fails on a shared buffer when
  \<open>allowShared\<close> is unset and returns the buffer when it is set. The code fails under
  both settings: once \<^verbatim>\<open>isNonSharedArrayBuffer\<close> is false, the branch ends in an
  unconditional \<^verbatim>\<open>throw\<close> of "is not an ArrayBuffer".
\<close>

theorem ArrayBuffer_rejects_shared:
  "heap h r = SharedArrayBufferObj n \<Longrightarrow>
   export_ArrayBuffer h (Object r) opts =
     Inl (makeException TypeError ''is not an ArrayBuffer'' opts)"
  by (simp add: export_ArrayBuffer_def isNonSharedArrayBuffer_def isSharedArrayBuffer_def
      Reflect_apply_def)

theorem ArrayBuffer_rejects_shared_witness:
  "heap sample_host 1 = SharedArrayBufferObj 8
   \<and> export_ArrayBuffer sample_host (Object 1) allowShared_opts =
       Inl (Thrown TypeError ''Value is not an ArrayBuffer.'')"
  using ArrayBuffer_rejects_shared [of sample_host 1 8 allowShared_opts]
  by (simp add: sample_host_def sample_heap_def opts_simps message_simps)

text \<open>
  The union converter, by contrast, admits a shared buffer when \<open>allowShared\<close> is set.
\<close>

lemma BufferSource_admits_shared:
  "heap h r = SharedArrayBufferObj n \<Longrightarrow> opt_allowShared opts \<Longrightarrow>
   export_BufferSource h (Object r) opts = Inr (Object r)"
  by (simp add: export_BufferSource_def isView_def isNonSharedArrayBuffer_def
      isSharedArrayBuffer_def isArrayBufferDetached_def Reflect_apply_def)

text \<open>
  Claim C4 says that the DataView converter returns a genuine DataView over a non-shared,
  attached buffer. The code fails on every DataView: the probe calls the value as a
  function with the getter as receiver, a DataView is not callable, and the failure is
  reported as "is not a DataView".
\<close>

theorem DataView_rejects_DataView:
  "heap h r = DataViewObj b n \<Longrightarrow>
   export_DataView h (Object r) opts = Inl (makeException TypeError ''is not a DataView'' opts)"
  by (simp add: export_DataView_def Reflect_apply_def)

theorem DataView_rejects_DataView_witness:
  "heap sample_host 2 = DataViewObj 0 8 \<and> heap sample_host 0 = ArrayBufferObj False 8
   \<and> export_DataView sample_host (Object 2) default_opts =
       Inl (Thrown TypeError ''Value is not a DataView.'')"
  using DataView_rejects_DataView [of sample_host 2 0 8 default_opts]
  by (simp add: sample_host_def sample_heap_def opts_simps message_simps)

text \<open>
  No value passes: when the value is a function whose call returns, the buffer getter
  is called with the receiver \<^verbatim>\<open>undefined\<close> and raises.
\<close>

lemma export_DataView_never_returns: "\<exists>e. export_DataView h V opts = Inl e"
  by (simp add: export_DataView_def incompatible_receiver_def split: sum.splits)

section \<open>Scalar-value strings\<close>

text \<open>
  Claim C3 says that the scalar-value-string converter rebuilds every string by a scan
  of its code units that replaces unpaired surrogates with U+FFFD and combines surrogate
  pairs. The code returns the empty string for the empty string and raises a
  ReferenceError on every other string: the first iteration reads the identifier
  \<^verbatim>\<open>charCodeAt\<close>, which the module never binds.
\<close>

theorem USVString_raises:
  "S \<noteq> [] \<Longrightarrow> opt_globals opts = None \<Longrightarrow>
   export_USVString h (Str S) opts = Inl (Thrown ReferenceError ''charCodeAt is not defined'')"
  by (simp add: export_USVString_def export_DOMString_def charCodeAt_def)

theorem USVString_raises_witness:
  "[0xD800, 0x61] \<noteq> ([] :: jsstring) \<and> opt_globals default_opts = None
   \<and> export_USVString sample_host (Str [0xD800, 0x61]) default_opts =
       Inl (Thrown ReferenceError ''charCodeAt is not defined'')"
  using USVString_raises [of "[0xD800, 0x61]" default_opts sample_host]
  by (simp add: default_opts_sel)

text \<open>
  With the identifier bound to \<^verbatim>\<open>String.prototype.charCodeAt\<close> the loop would repair a
  lone leading surrogate before \<^verbatim>\<open>"a"\<close> as the claim describes.
\<close>

lemma USV_loop_bound_example:
  "USV_loop (Inr String_charCodeAt) [0xD800, 0x61] 2 0 [] = Inr [[0xFFFD], [0x61]]"
  by (simp add: String_charCodeAt_def number_simps)

end
